theory Spec2Isabelle
  imports Complex_Main "HOL-Library.Stream"
begin

section \<open>Python values the model needs\<close>

text \<open>
  Exceptions are values. Only the exceptions that the modelled code paths of
  \<^verbatim>\<open>population.py\<close>, \<^verbatim>\<open>ssga.py\<close> and \<^verbatim>\<open>settings.py\<close> can raise are listed.
\<close>

datatype py_error =
    ValueError
  | IndexError
  | AttributeError
  | StopIteration
  | StatisticsError
  | FileNotFoundError
  | UnpicklingError

section \<open>The Solution contract\<close>

text \<open>
  Modelled from the spec: the class \<^verbatim>\<open>Solution\<close> (\<^verbatim>\<open>mhlib/solution.py\<close>) is not part of the
  sources. The spec (sections 3 and 4.1) gives a solution an opaque representation and an
  objective value returned by \<^verbatim>\<open>obj()\<close>; \<^verbatim>\<open>is_better\<close> and \<^verbatim>\<open>is_worse\<close> are total over
  the objective, ties are neither better nor worse, and the direction is the constant
  \<^verbatim>\<open>to_maximize\<close> of the problem; \<^verbatim>\<open>is_equal\<close> is structural equality.
  The objective is a real number here; the floating point rounding of Python is not modelled.
\<close>

record 'a solution =
  rep :: 'a
  obj :: real

definition is_better :: "bool \<Rightarrow> 'a solution \<Rightarrow> 'a solution \<Rightarrow> bool" where
  "is_better to_maximize a b = (if to_maximize then obj b < obj a else obj a < obj b)"

definition is_worse :: "bool \<Rightarrow> 'a solution \<Rightarrow> 'a solution \<Rightarrow> bool" where
  "is_worse to_maximize a b = (if to_maximize then obj a < obj b else obj b < obj a)"

definition is_equal :: "'a solution \<Rightarrow> 'a solution \<Rightarrow> bool" where
  "is_equal a b = (a = b)"

section \<open>Population queries (population.py)\<close>

text \<open>
  A \<^verbatim>\<open>Population\<close> is a Python list of solutions. The queries only read the members, so
  they are functions of the list of member values.

  \<^verbatim>\<open>best\<close>: \<^verbatim>\<open>best = 0; for i in range(len(self)): if self[i].is_better(self[best]): best = i\<close>.
  On an empty population the loop body never runs and 0 is returned.
\<close>

definition best :: "bool \<Rightarrow> 'a solution list \<Rightarrow> nat" where
  "best to_maximize self =
     fold (\<lambda>i b. if is_better to_maximize (self ! i) (self ! b) then i else b)
       [0..<length self] 0"

definition worst :: "bool \<Rightarrow> 'a solution list \<Rightarrow> nat" where
  "worst to_maximize self =
     fold (\<lambda>i w. if is_worse to_maximize (self ! i) (self ! w) then i else w)
       [0..<length self] 0"

text \<open>
  \<^verbatim>\<open>duplicates_of\<close>: \<^verbatim>\<open>for idx, individual in enumerate(self): if individual == solution:
  duplicates.append(idx)\<close>. The accumulator is the list built so far.
\<close>

fun duplicates_loop :: "nat \<Rightarrow> 'a solution list \<Rightarrow> 'a solution \<Rightarrow> nat list \<Rightarrow> nat list" where
  "duplicates_loop idx [] solution duplicates = duplicates"
| "duplicates_loop idx (individual # rest) solution duplicates =
     duplicates_loop (Suc idx) rest solution
       (if is_equal individual solution then duplicates @ [idx] else duplicates)"

definition duplicates_of :: "'a solution list \<Rightarrow> 'a solution \<Rightarrow> nat list" where
  "duplicates_of self solution = duplicates_loop 0 self solution []"


section \<open>Random numbers\<close>

text \<open>
  The module-level generator of Python's \<^verbatim>\<open>random\<close> is modelled by the stream of raw
  numbers it will still deliver: every draw takes the head of the stream. \<^verbatim>\<open>randint(a, b)\<close>
  maps the raw number onto \<open>a..b\<close> (every value of the range is reachable) and raises
  \<^verbatim>\<open>ValueError\<close> on an empty range; \<^verbatim>\<open>random()\<close> yields a multiple of \<open>2^-53\<close> in
  \<open>[0, 1)\<close>. Probabilities are not modelled: a property proved for every stream holds for
  every outcome of the draws.
\<close>

type_synonym rng = "nat stream"

definition random_randint :: "int \<Rightarrow> int \<Rightarrow> rng \<Rightarrow> py_error + (int \<times> rng)" where
  "random_randint a b g =
     (if b < a then Inl ValueError
      else Inr (a + int (shd g mod nat (b - a + 1)), stl g))"

definition random_random :: "rng \<Rightarrow> real \<times> rng" where
  "random_random g = (real (shd g mod 2 ^ 53) / 2 ^ 53, stl g)"

section \<open>Settings (settings.py and the options registered by the modules)\<close>

text \<open>
  The global \<^verbatim>\<open>settings\<close> namespace after \<^verbatim>\<open>parse_settings\<close>: \<^verbatim>\<open>seed\<close> (declared
  \<^verbatim>\<open>type=int\<close>, default 0) and the options that \<^verbatim>\<open>population.py\<close> and \<^verbatim>\<open>ssga.py\<close> register.
  Options of modules outside the sources live in the extension part of the record.
  The two SSGA probabilities are declared \<^verbatim>\<open>type=int\<close> with defaults 1 and 0.1 and are only
  ever compared with \<^verbatim>\<open>random.random()\<close>; they are numbers here.
\<close>

record settings =
  seed :: int
  mh_pop_size :: int
  mh_tournament_size :: int
  mh_dupelim :: bool
  mh_ssga_cross_prob :: real
  mh_ssga_loc_prob :: real

text \<open>
  \<^verbatim>\<open>seed_random_generators\<close>. The argument \<open>entropy\<close> is the raw outcome of the freshly
  (OS-)seeded numpy generator; \<^verbatim>\<open>np.random.randint(np.iinfo(np.int32).max)\<close> draws from
  \<open>[0, 2147483647)\<close>, the low end 0 included. \<^verbatim>\<open>np.random.seed\<close> accepts an integer seed
  only in \<open>[0, 2^32 - 1]\<close> and raises \<^verbatim>\<open>ValueError\<close> otherwise; \<^verbatim>\<open>random.seed\<close> accepts every
  integer. The result holds the updated settings and the seeds given to the numpy
  generator and to Python's generator.
\<close>

record generators =
  np_seed :: int
  py_seed :: int

definition seed_random_generators ::
  "'z settings_scheme \<Rightarrow> nat \<Rightarrow> py_error + ('z settings_scheme \<times> generators)" where
  "seed_random_generators settings entropy =
     (let settings' =
        (if seed settings = 0 then settings\<lparr>seed := int (entropy mod 2147483647)\<rparr>
         else settings)
      in if seed settings' < 0 \<or> 2 ^ 32 \<le> seed settings' then Inl ValueError
         else Inr (settings', \<lparr>np_seed = seed settings', py_seed = seed settings'\<rparr>))"

text \<open>
  \<^verbatim>\<open>save_settings\<close> and \<^verbatim>\<open>load_settings\<close>. The file system maps a file name to the bytes
  stored under it. \<^verbatim>\<open>pickle.dump\<close> and \<^verbatim>\<open>pickle.load\<close> are library code: they are the
  parameters \<open>dumps\<close> and \<open>loads\<close> (\<open>loads\<close> fails on bytes that are no pickle).
  \<^verbatim>\<open>load_settings\<close> replaces the attributes of the global settings by the loaded ones and
  then calls \<^verbatim>\<open>seed_random_generators\<close>.
\<close>

definition save_settings ::
  "('z settings_scheme \<Rightarrow> 'b) \<Rightarrow> (string \<rightharpoonup> 'b) \<Rightarrow> string \<Rightarrow> 'z settings_scheme \<Rightarrow> (string \<rightharpoonup> 'b)" where
  "save_settings dumps fs filename settings = fs(filename \<mapsto> dumps settings)"

definition load_settings ::
  "('b \<Rightarrow> 'z settings_scheme option) \<Rightarrow> (string \<rightharpoonup> 'b) \<Rightarrow> string \<Rightarrow> nat \<Rightarrow>
     py_error + ('z settings_scheme \<times> generators)" where
  "load_settings loads fs filename entropy =
     (case fs filename of
        None \<Rightarrow> Inl FileNotFoundError
      | Some blob \<Rightarrow>
          (case loads blob of
             None \<Rightarrow> Inl UnpicklingError
           | Some settings \<Rightarrow> seed_random_generators settings entropy))"

section \<open>Tournament selection and statistics (population.py)\<close>

text \<open>
  \<^verbatim>\<open>selection\<close>: the first draw, then \<^verbatim>\<open>range(k - 1)\<close> further draws, each by
  \<^verbatim>\<open>random.randint(1, len(self) - 1)\<close>; the running index changes only when the drawn
  member is strictly better.
\<close>

fun selection_loop ::
  "bool \<Rightarrow> 'a solution list \<Rightarrow> nat \<Rightarrow> nat \<Rightarrow> rng \<Rightarrow> py_error + (nat \<times> rng)" where
  "selection_loop to_maximize self 0 b g = Inr (b, g)"
| "selection_loop to_maximize self (Suc n) b g =
     (case random_randint 1 (int (length self) - 1) g of
        Inl e \<Rightarrow> Inl e
      | Inr (individual, g') \<Rightarrow>
          selection_loop to_maximize self n
            (if is_better to_maximize (self ! nat individual) (self ! b)
             then nat individual else b) g')"

definition selection ::
  "bool \<Rightarrow> 'z settings_scheme \<Rightarrow> 'a solution list \<Rightarrow> rng \<Rightarrow> py_error + (nat \<times> rng)" where
  "selection to_maximize own_settings self g =
     (let k = mh_tournament_size own_settings
      in case random_randint 1 (int (length self) - 1) g of
           Inl e \<Rightarrow> Inl e
         | Inr (b, g') \<Rightarrow> selection_loop to_maximize self (nat (k - 1)) (nat b) g')"

text \<open>
  \<^verbatim>\<open>obj_avg\<close> raises \<^verbatim>\<open>ValueError\<close> itself on an empty population. \<^verbatim>\<open>obj_std\<close> hands the
  objectives to \<^verbatim>\<open>statistics.stdev\<close>, which raises \<^verbatim>\<open>StatisticsError\<close> on fewer than two
  values and otherwise returns the square root of the sample variance.
\<close>

definition obj_avg :: "'a solution list \<Rightarrow> py_error + real" where
  "obj_avg self =
     (if length self < 1 then Inl ValueError
      else (let objectives = map obj self
            in Inr (sum_list objectives / real (length objectives))))"

definition stdev :: "real list \<Rightarrow> py_error + real" where
  "stdev data =
     (if length data < 2 then Inl StatisticsError
      else (let n = real (length data); mean = sum_list data / n
            in Inr (sqrt (sum_list (map (\<lambda>v. (v - mean)\<^sup>2) data) / (n - 1)))))"

definition obj_std :: "'a solution list \<Rightarrow> py_error + real" where
  "obj_std self = stdev (map obj self)"

section \<open>Methods and results\<close>

text \<open>
  Modelled from the spec: \<^verbatim>\<open>Method\<close> and \<^verbatim>\<open>Result\<close> (\<^verbatim>\<open>mhlib/scheduler.py\<close>) are not part of
  the sources. A result has the flags \<^verbatim>\<open>changed\<close> and \<^verbatim>\<open>terminate\<close>, both initially false;
  a method is a name, a callable and a parameter, and the callable consumes the solution, the
  parameter and the result, and may change the solution and the result. The callable is a
  function of the solution value, the parameter, the result and the random generator; a
  callable that raises is not modelled.
\<close>

record result =
  changed :: bool
  terminate :: bool

definition Result :: result where
  "Result = \<lparr>changed = False, terminate = False\<rparr>"

record 'a Method =
  name :: string
  func :: "'a solution \<Rightarrow> int option \<Rightarrow> result \<Rightarrow> rng \<Rightarrow> 'a solution \<times> result \<times> rng"
  par :: "int option"

section \<open>Population initialisation (population.py)\<close>

text \<open>
  \<^verbatim>\<open>Population.__init__\<close>. The loop state is the population built so far, the solution
  \<^verbatim>\<open>sol\<close> (each round works on a copy of the previous round's solution), the position \<open>i\<close>
  in \<^verbatim>\<open>cycle(self.meths_ch)\<close> and the random generator. \<^verbatim>\<open>next\<close> on the cycle of an empty
  list raises \<^verbatim>\<open>StopIteration\<close>. The loop has no bound of its own, so the function is
  partial: \<open>None\<close> means that the constructor never returns.
\<close>

partial_function (option) Population_loop ::
  "'z settings_scheme \<Rightarrow> 'a Method list \<Rightarrow> nat \<Rightarrow> 'a solution list \<Rightarrow> 'a solution \<Rightarrow> rng \<Rightarrow>
     (py_error + ('a solution list \<times> rng)) option" where
  "Population_loop own_settings meths_ch i self sol g =
     (if int (length self) < mh_pop_size own_settings then
        (if meths_ch = [] then Some (Inl StopIteration)
         else
           (let m = meths_ch ! (i mod length meths_ch);
                (sol', res, g') = func m sol (par m) Result g
            in if mh_dupelim own_settings \<and> duplicates_of self sol' \<noteq> [] then
                 Population_loop own_settings meths_ch (Suc i) self sol' g'
               else if terminate res then Some (Inr (self @ [sol'], g'))
               else Population_loop own_settings meths_ch (Suc i) (self @ [sol']) sol' g'))
      else Some (Inr (self, g)))"

definition Population_init ::
  "'z settings_scheme \<Rightarrow> 'a Method list \<Rightarrow> 'a solution \<Rightarrow> rng \<Rightarrow>
     (py_error + ('a solution list \<times> rng)) option" where
  "Population_init own_settings meths_ch sol g = Population_loop own_settings meths_ch 0 [] sol g"

section \<open>The steady-state genetic algorithm (ssga.py)\<close>

text \<open>
  Solutions are objects, and \<^verbatim>\<open>ssga.py\<close> stores references to them. The store \<open>heap\<close>
  holds the value of every solution object; a reference is a position in it. The
  population is a list of references and the incumbent is a reference. Fields of the
  base class \<^verbatim>\<open>Scheduler\<close> that the sources do not show live in the extension part.
\<close>

record 'a ssga =
  heap :: "'a solution list"
  population :: "nat list"
  incumbent :: nat
  meth_cx :: "'a solution \<Rightarrow> 'a solution \<Rightarrow> rng \<Rightarrow> 'a solution \<times> rng"
  meth_mu :: "'a Method"
  meth_ls :: "'a Method option"

definition members :: "('a, 'z) ssga_scheme \<Rightarrow> 'a solution list" where
  "members self = map (\<lambda>r. heap self ! r) (population self)"

text \<open>
  \<^verbatim>\<open>r.copy()\<close> allocates a new object with the value of \<open>r\<close> and returns its reference;
  \<^verbatim>\<open>dst.copy_from(src)\<close> overwrites the value of the object \<open>dst\<close>.
\<close>

definition copy :: "('a, 'z) ssga_scheme \<Rightarrow> nat \<Rightarrow> nat \<times> ('a, 'z) ssga_scheme" where
  "copy self r = (length (heap self), self\<lparr>heap := heap self @ [heap self ! r]\<rparr>)"

definition copy_from :: "('a, 'z) ssga_scheme \<Rightarrow> nat \<Rightarrow> nat \<Rightarrow> ('a, 'z) ssga_scheme" where
  "copy_from self dst src = self\<lparr>heap := (heap self)[dst := heap self ! src]\<rparr>"

text \<open>
  Modelled from the spec: \<^verbatim>\<open>Scheduler.__init__\<close> (\<^verbatim>\<open>mhlib/scheduler.py\<close>) is not part of the
  sources. By the spec (section 4.3) the base scheduler owns the incumbent and the optional
  population; it is given no check of option values. Here it records the solution \<^verbatim>\<open>sol\<close>
  passed by the caller as the incumbent and stores the population.
\<close>

definition Scheduler_init ::
  "'a solution list \<Rightarrow> nat \<Rightarrow> nat list \<Rightarrow>
     ('a solution \<Rightarrow> 'a solution \<Rightarrow> rng \<Rightarrow> 'a solution \<times> rng) \<Rightarrow> 'a Method \<Rightarrow> 'a Method option \<Rightarrow>
     'a ssga" where
  "Scheduler_init h sol pop cx mu li =
     \<lparr>heap = h, population = pop, incumbent = sol, meth_cx = cx, meth_mu = mu, meth_ls = li\<rparr>"

text \<open>
  \<^verbatim>\<open>SteadyStateGeneticAlgorithm.__init__\<close>. The caller's \<^verbatim>\<open>sol\<close> is the object at reference 0;
  the members that \<^verbatim>\<open>Population.__init__\<close> appended are the fresh copies it made, one object
  each, at the references \<open>1..n\<close>. The last statement is
  \<^verbatim>\<open>self.incumbent = self.population[self.population.best()]\<close>: the incumbent becomes the
  reference stored in the population, and indexing an empty population raises
  \<^verbatim>\<open>IndexError\<close>.
\<close>

definition SSGA_init ::
  "bool \<Rightarrow> 'z settings_scheme \<Rightarrow> 'a solution \<Rightarrow> 'a Method list \<Rightarrow>
     ('a solution \<Rightarrow> 'a solution \<Rightarrow> rng \<Rightarrow> 'a solution \<times> rng) \<Rightarrow> 'a Method \<Rightarrow> 'a Method option \<Rightarrow>
     rng \<Rightarrow> (py_error + ('a ssga \<times> rng)) option" where
  "SSGA_init to_maximize own_settings sol meths_ch cx mu li g =
     (case Population_init own_settings meths_ch sol g of
        None \<Rightarrow> None
      | Some (Inl e) \<Rightarrow> Some (Inl e)
      | Some (Inr (ms, g')) \<Rightarrow>
          (let self = Scheduler_init (sol # ms) 0 [1..<Suc (length ms)] cx mu li;
               b = best to_maximize (members self)
           in if b < length (population self)
              then Some (Inr (self\<lparr>incumbent := population self ! b\<rparr>, g'))
              else Some (Inl IndexError)))"

text \<open>
  One round of \<^verbatim>\<open>run\<close>, first part: the working copy \<^verbatim>\<open>p1\<close> of a selected member and the
  list of methods of this round. \<^verbatim>\<open>run\<close> calls \<^verbatim>\<open>population.select()\<close>; \<^verbatim>\<open>population.py\<close>
  defines the tournament under the name \<^verbatim>\<open>selection\<close> and no \<^verbatim>\<open>select\<close>, so the query is the
  parameter \<open>select\<close> of the model (a function of the member values and the generator).
  The method \<^verbatim>\<open>"cx"\<close> binds the crossover operator and the copy \<^verbatim>\<open>p2\<close>; it leaves the result
  as it is.
\<close>

definition cx_method ::
  "('a solution \<Rightarrow> 'a solution \<Rightarrow> rng \<Rightarrow> 'a solution \<times> rng) \<Rightarrow> 'a solution \<Rightarrow> 'a Method" where
  "cx_method crossover p2 =
     \<lparr>name = ''cx'',
      func = (\<lambda>p1 _ res g. (let (p1', g') = crossover p1 p2 g in (p1', res, g'))),
      par = None\<rparr>"

definition new_solution ::
  "('a solution list \<Rightarrow> rng \<Rightarrow> py_error + (nat \<times> rng)) \<Rightarrow> 'y settings_scheme \<Rightarrow>
     ('a, 'z) ssga_scheme \<Rightarrow> rng \<Rightarrow>
     py_error + ('a Method list \<times> nat \<times> ('a, 'z) ssga_scheme \<times> rng)" where
  "new_solution select own_settings self g =
     (case select (members self) g of
        Inl e \<Rightarrow> Inl e
      | Inr (i1, g1) \<Rightarrow>
          if \<not> i1 < length (population self) then Inl IndexError
          else
            (let (p1, self1) = copy self (population self ! i1);
                 (u, g2) = random_random g1
             in case (if u < mh_ssga_cross_prob own_settings then
                        (case select (members self1) g2 of
                           Inl e \<Rightarrow> Inl e
                         | Inr (i2, g3) \<Rightarrow>
                             if \<not> i2 < length (population self1) then Inl IndexError
                             else
                               (let (p2, self2) = copy self1 (population self1 ! i2)
                                in Inr ([cx_method (meth_cx self2) (heap self2 ! p2)], self2, g3)))
                      else Inr ([], self1, g2)) of
                  Inl e \<Rightarrow> Inl e
                | Inr (methods, self3, g4) \<Rightarrow>
                    (let methods = methods @ [meth_mu self3]
                     in case meth_ls self3 of
                          None \<Rightarrow> Inr (methods, p1, self3, g4)
                        | Some ls \<Rightarrow>
                            (let (v, g5) = random_random g4
                             in Inr (if v < mh_ssga_loc_prob own_settings then methods @ [ls]
                                     else methods, p1, self3, g5)))))"

text \<open>
  The rest of the round. \<^verbatim>\<open>Scheduler.perform_methods\<close> is not part of the sources: it is
  the parameter \<open>perform_methods\<close>, which may change the whole scheduler state. On
  \<^verbatim>\<open>res.terminate\<close> the loop is left; otherwise the worst member is overwritten by
  \<^verbatim>\<open>copy_from\<close> and \<^verbatim>\<open>self.incumbent = p1\<close> rebinds the incumbent when \<^verbatim>\<open>p1\<close> is better.
\<close>

datatype 's flow = Break 's rng | Continue 's rng

definition run_step ::
  "('a solution list \<Rightarrow> rng \<Rightarrow> py_error + (nat \<times> rng)) \<Rightarrow>
     ('a Method list \<Rightarrow> nat \<Rightarrow> ('a, 'z) ssga_scheme \<Rightarrow> rng \<Rightarrow>
        py_error + (result \<times> ('a, 'z) ssga_scheme \<times> rng)) \<Rightarrow>
     bool \<Rightarrow> 'y settings_scheme \<Rightarrow> ('a, 'z) ssga_scheme \<Rightarrow> rng \<Rightarrow>
     py_error + ('a, 'z) ssga_scheme flow" where
  "run_step select perform_methods to_maximize own_settings self g =
     (case new_solution select own_settings self g of
        Inl e \<Rightarrow> Inl e
      | Inr (methods, p1, self1, g1) \<Rightarrow>
          (case perform_methods methods p1 self1 g1 of
             Inl e \<Rightarrow> Inl e
           | Inr (res, self2, g2) \<Rightarrow>
               if terminate res then Inr (Break self2 g2)
               else
                 (let w = worst to_maximize (members self2)
                  in if \<not> w < length (population self2) then Inl IndexError
                     else
                       (let self3 = copy_from self2 (population self2 ! w) p1;
                            self4 = (if is_better to_maximize (heap self3 ! p1)
                                          (heap self3 ! incumbent self3)
                                     then self3\<lparr>incumbent := p1\<rparr> else self3)
                        in Inr (Continue self4 g2)))))"

text \<open>
  \<^verbatim>\<open>run\<close> is \<^verbatim>\<open>while True\<close> around the round; \<open>None\<close> means that it never returns.
\<close>

partial_function (option) run ::
  "('a solution list \<Rightarrow> rng \<Rightarrow> py_error + (nat \<times> rng)) \<Rightarrow>
     ('a Method list \<Rightarrow> nat \<Rightarrow> ('a, 'z) ssga_scheme \<Rightarrow> rng \<Rightarrow>
        py_error + (result \<times> ('a, 'z) ssga_scheme \<times> rng)) \<Rightarrow>
     bool \<Rightarrow> 'y settings_scheme \<Rightarrow> ('a, 'z) ssga_scheme \<Rightarrow> rng \<Rightarrow>
     (py_error + (('a, 'z) ssga_scheme \<times> rng)) option" where
  "run select perform_methods to_maximize own_settings self g =
     (case run_step select perform_methods to_maximize own_settings self g of
        Inl e \<Rightarrow> Some (Inl e)
      | Inr (Break self' g') \<Rightarrow> Some (Inr (self', g'))
      | Inr (Continue self' g') \<Rightarrow>
          run select perform_methods to_maximize own_settings self' g')"

text \<open>
  Modelled from the spec: \<^verbatim>\<open>Scheduler.perform_methods\<close> (\<^verbatim>\<open>mhlib/scheduler.py\<close>) is not part
  of the sources. By the spec (section 4.3) the methods are applied to the working solution
  one after the other; after every method the incumbent is overwritten by
  \<^verbatim>\<open>incumbent.copy_from\<close> when the working solution is strictly better; the sequence stops
  as soon as a call sets \<^verbatim>\<open>terminate\<close>. This instance has no iteration, time or objective
  budget (all unlimited) and keeps no statistics. It is one possible value of the parameter
  \<open>perform_methods\<close> above and is used for the worked examples only.
\<close>

fun perform_methods ::
  "bool \<Rightarrow> 'a Method list \<Rightarrow> nat \<Rightarrow> ('a, 'z) ssga_scheme \<Rightarrow> rng \<Rightarrow>
     py_error + (result \<times> ('a, 'z) ssga_scheme \<times> rng)" where
  "perform_methods to_maximize [] p1 self g = Inr (Result, self, g)"
| "perform_methods to_maximize (m # ms) p1 self g =
     (let (s', res, g') = func m (heap self ! p1) (par m) Result g;
          self1 = self\<lparr>heap := (heap self)[p1 := s']\<rparr>;
          self2 = (if is_better to_maximize (heap self1 ! p1) (heap self1 ! incumbent self1)
                   then copy_from self1 (incumbent self1) p1 else self1)
      in if terminate res \<or> ms = [] then Inr (res, self2, g')
         else perform_methods to_maximize ms p1 self2 g')"

section \<open>Auxiliary predicates\<close>

text \<open>
  The situation in which \<^verbatim>\<open>Population.__init__\<close> rejects every candidate: duplicate
  elimination is on, the population is short, and whatever a construction method builds
  is equal to a member.
\<close>

definition all_rejected :: "'z settings_scheme \<Rightarrow> 'a Method list \<Rightarrow> 'a solution list \<Rightarrow> bool" where
  "all_rejected own_settings meths_ch self \<longleftrightarrow>
     mh_dupelim own_settings \<and> meths_ch \<noteq> [] \<and>
     int (length self) < mh_pop_size own_settings \<and>
     (\<forall>m\<in>set meths_ch. \<forall>s h. \<exists>p\<in>set self. is_equal p (fst (func m s (par m) Result h)))"

section \<open>Inputs of the worked examples\<close>

text \<open>A population given by its objective values; every member has the representation 0.\<close>

definition objs_pop :: "real list \<Rightarrow> nat solution list" where
  "objs_pop vs = map (\<lambda>v. \<lparr>rep = 0, obj = v\<rparr>) vs"

text \<open>
  The population of ten of the spec's scenario (minimisation) and settings with a
  tournament of ten.
\<close>

definition settings10 :: settings where
  "settings10 = \<lparr>seed = 1, mh_pop_size = 10, mh_tournament_size = 10, mh_dupelim = False,
     mh_ssga_cross_prob = 1, mh_ssga_loc_prob = 0.1\<rparr>"

definition pop10 :: "nat solution list" where
  "pop10 = objs_pop [5, 1, 9, 2, 7, 3, 8, 4, 6, 10]"

text \<open>
  A construction method that always builds the same solution, one that signals
  termination, settings with duplicate elimination and a population size of five, and a
  prototype solution.
\<close>

definition same_method :: "nat Method" where
  "same_method = \<lparr>name = ''ch'', func = (\<lambda>s p res g. (\<lparr>rep = 0, obj = 3\<rparr>, res\<lparr>changed := True\<rparr>, g)),
     par = Some 0\<rparr>"

definition stop_method :: "nat Method" where
  "stop_method = \<lparr>name = ''stop'',
     func = (\<lambda>s p res g. (s\<lparr>obj := 3\<rparr>, res\<lparr>changed := True, terminate := True\<rparr>, g)),
     par = None\<rparr>"

definition settings5 :: settings where
  "settings5 = \<lparr>seed = 1, mh_pop_size = 5, mh_tournament_size = 10, mh_dupelim = True,
     mh_ssga_cross_prob = 1, mh_ssga_loc_prob = 0.1\<rparr>"

definition sol0 :: "nat solution" where
  "sol0 = \<lparr>rep = 0, obj = 0\<rparr>"

text \<open>
  Settings that were never seeded (\<^verbatim>\<open>seed = 0\<close>); a crossover operator that keeps the
  first parent; a mutation that sets the objective to 9; a local improvement that changes
  nothing; settings for a population of two with both probabilities 0; settings with
  \<^verbatim>\<open>mh_ssga_cross_prob = 5\<close>; and the states of the worked SSGA examples.
\<close>

definition settings_unseeded :: settings where
  "settings_unseeded = \<lparr>seed = 0, mh_pop_size = 10, mh_tournament_size = 10, mh_dupelim = False,
     mh_ssga_cross_prob = 1, mh_ssga_loc_prob = 0.1\<rparr>"

definition keep_cx :: "nat solution \<Rightarrow> nat solution \<Rightarrow> rng \<Rightarrow> nat solution \<times> rng" where
  "keep_cx p1 p2 g = (p1, g)"

definition worsen_method :: "nat Method" where
  "worsen_method = \<lparr>name = ''mu'',
     func = (\<lambda>s p res g. (s\<lparr>obj := 9\<rparr>, res\<lparr>changed := True\<rparr>, g)), par = Some 1\<rparr>"

definition keep_method :: "nat Method" where
  "keep_method = \<lparr>name = ''li'', func = (\<lambda>s p res g. (s, res, g)), par = None\<rparr>"

definition settings2 :: settings where
  "settings2 = \<lparr>seed = 1, mh_pop_size = 2, mh_tournament_size = 10, mh_dupelim = False,
     mh_ssga_cross_prob = 0, mh_ssga_loc_prob = 0\<rparr>"

definition settings_bad :: settings where
  "settings_bad = \<lparr>seed = 1, mh_pop_size = 2, mh_tournament_size = 10, mh_dupelim = False,
     mh_ssga_cross_prob = 5, mh_ssga_loc_prob = 0.1\<rparr>"

definition state0 :: "nat ssga" where
  "state0 = \<lparr>heap = [sol0, \<lparr>rep = 0, obj = 3\<rparr>, \<lparr>rep = 0, obj = 3\<rparr>], population = [1, 2],
     incumbent = 1, meth_cx = keep_cx, meth_mu = worsen_method, meth_ls = Some keep_method\<rparr>"

definition state1 :: "nat ssga" where
  "state1 = state0\<lparr>heap := [sol0, \<lparr>rep = 0, obj = 9\<rparr>, \<lparr>rep = 0, obj = 3\<rparr>, \<lparr>rep = 0, obj = 9\<rparr>]\<rparr>"


text \<open>
  A second construction method (objective 4) and settings with duplicate elimination for a
  population of two; a mutation that improves the working copy to objective 1 and signals
  termination, with the state that uses it; and the query \<^verbatim>\<open>select\<close> as
  \<^verbatim>\<open>population.py\<close> gives it: the attribute does not exist.
\<close>

definition other_method :: "nat Method" where
  "other_method = \<lparr>name = ''ch2'',
     func = (\<lambda>s p res g. (\<lparr>rep = 0, obj = 4\<rparr>, res\<lparr>changed := True\<rparr>, g)), par = Some 1\<rparr>"

definition settings_dupelim2 :: settings where
  "settings_dupelim2 = \<lparr>seed = 1, mh_pop_size = 2, mh_tournament_size = 10, mh_dupelim = True,
     mh_ssga_cross_prob = 0, mh_ssga_loc_prob = 0\<rparr>"




section \<open>Properties of the population queries\<close>

lemma is_worse_conv: "is_worse tm a b = is_better tm b a"
  by (simp add: is_worse_def is_better_def)

lemma is_worse_flip: "is_worse tm a b = is_better (\<not> tm) a b"
  by (simp add: is_worse_def is_better_def)

lemma worst_eq_best_flip: "worst tm self = best (\<not> tm) self"
  by (simp add: worst_def best_def is_worse_flip)

lemma is_better_irrefl: "\<not> is_better tm a a"
  by (simp add: is_better_def)

lemma is_better_trans: "is_better tm a b \<Longrightarrow> is_better tm b c \<Longrightarrow> is_better tm a c"
  by (auto simp: is_better_def split: if_splits)

lemma not_better_trans:
  "\<not> is_better tm a b \<Longrightarrow> \<not> is_better tm b c \<Longrightarrow> \<not> is_better tm a c"
  by (auto simp: is_better_def split: if_splits)

lemma better_not_better_trans:
  "is_better tm a b \<Longrightarrow> \<not> is_better tm c b \<Longrightarrow> is_better tm a c"
  by (auto simp: is_better_def split: if_splits)

text \<open>
  The loop invariant of \<^verbatim>\<open>best\<close>: after the indices below \<open>n\<close>, the running index is the
  first position of the prefix that no member of the prefix beats.
\<close>

lemma best_prefix:
  fixes tm :: bool and self :: "'a solution list"
  assumes "n \<le> length self"
  defines "b \<equiv> fold (\<lambda>i b. if is_better tm (self ! i) (self ! b) then i else b) [0..<n] 0"
  shows "(0 < n \<longrightarrow> b < n) \<and> (\<forall>j<n. \<not> is_better tm (self ! j) (self ! b)) \<and>
         (\<forall>j<b. is_better tm (self ! b) (self ! j))"
  using assms(1) unfolding b_def
proof (induction n)
  case 0
  then show ?case by simp
next
  case (Suc n)
  let ?f = "\<lambda>i b. if is_better tm (self ! i) (self ! b) then i else b"
  let ?b = "fold ?f [0..<n] 0"
  from Suc have IH: "(0 < n \<longrightarrow> ?b < n)" "\<forall>j<n. \<not> is_better tm (self ! j) (self ! ?b)"
    "\<forall>j<?b. is_better tm (self ! ?b) (self ! j)"
    by simp_all
  have step: "fold ?f [0..<Suc n] 0 = ?f n ?b" by simp
  show ?case
  proof (cases "is_better tm (self ! n) (self ! ?b)")
    case True
    have "\<forall>j<n. is_better tm (self ! n) (self ! j)"
      using True IH(2) better_not_better_trans by blast
    moreover have "\<forall>j<Suc n. \<not> is_better tm (self ! j) (self ! n)"
    proof (intro allI impI)
      fix j assume "j < Suc n"
      show "\<not> is_better tm (self ! j) (self ! n)"
      proof (cases "j = n")
        case True
        then show ?thesis by (simp add: is_better_irrefl)
      next
        case False
        with \<open>j < Suc n\<close> have "j < n" by simp
        with calculation have "is_better tm (self ! n) (self ! j)" by blast
        then show ?thesis by (auto simp: is_better_def split: if_splits)
      qed
    qed
    ultimately show ?thesis using True step by simp
  next
    case False
    have bn: "?b < Suc n" using IH(1) by (cases n) auto
    have "\<forall>j<Suc n. \<not> is_better tm (self ! j) (self ! ?b)"
      using IH(2) False by (simp add: less_Suc_eq)
    then show ?thesis using False step IH(3) bn by simp
  qed
qed

lemma best_first_optimum:
  assumes "self \<noteq> []"
  shows "best tm self < length self"
    and "\<forall>j<length self. \<not> is_better tm (self ! j) (self ! best tm self)"
    and "\<forall>j<best tm self. is_better tm (self ! best tm self) (self ! j)"
  using best_prefix [of "length self" self tm] assms
  by (simp_all add: best_def)

lemma duplicates_loop_eq:
  "duplicates_loop idx self solution acc =
     acc @ map (\<lambda>i. idx + i) (filter (\<lambda>i. is_equal (self ! i) solution) [0..<length self])"
proof (induction self arbitrary: idx acc)
  case Nil
  then show ?case by simp
next
  case (Cons individual rest)
  have upt: "[0..<length (individual # rest)] = 0 # map Suc [0..<length rest]"
    by (simp add: upt_conv_Cons map_Suc_upt del: upt_Suc)
  show ?case
    unfolding upt by (simp add: Cons.IH filter_map comp_def)
qed

lemma duplicates_of_eq_filter:
  "duplicates_of self solution =
     filter (\<lambda>i. is_equal (self ! i) solution) [0..<length self]"
  by (simp add: duplicates_of_def duplicates_loop_eq)

text \<open>
  Claim C8. For every population and every solution, \<^verbatim>\<open>duplicates_of\<close> returns exactly the
  indices, in increasing order, whose member is equal to the solution.
\<close>

theorem duplicates_of_exact:
  "duplicates_of self solution =
     filter (\<lambda>i. is_equal (self ! i) solution) [0..<length self]"
  by (rule duplicates_of_eq_filter)

text \<open>
  Claim C9. On a non-empty population \<^verbatim>\<open>best\<close> returns an index whose member is not worse
  than any member, and no smaller index holds such a member; \<^verbatim>\<open>worst\<close> returns an index
  whose member is not better than any member, and no smaller index holds such a member.
\<close>

theorem best_worst_correct:
  assumes "self \<noteq> []"
  shows "best tm self < length self \<and>
     (\<forall>j<length self. \<not> is_worse tm (self ! best tm self) (self ! j)) \<and>
     (\<forall>j<length self. (\<forall>i<length self. \<not> is_worse tm (self ! j) (self ! i)) \<longrightarrow> best tm self \<le> j) \<and>
     worst tm self < length self \<and>
     (\<forall>j<length self. \<not> is_better tm (self ! worst tm self) (self ! j)) \<and>
     (\<forall>j<length self. (\<forall>i<length self. \<not> is_better tm (self ! j) (self ! i)) \<longrightarrow> worst tm self \<le> j)"
proof -
  have low: "b \<le> j"
    if b: "b < length self" and first: "\<forall>i<b. is_better d (self ! b) (self ! i)"
      and opt: "\<forall>i<length self. \<not> is_better d (self ! i) (self ! j)"
    for b j d
  proof (rule ccontr)
    assume "\<not> b \<le> j"
    then have "j < b" by simp
    with first have "is_better d (self ! b) (self ! j)" by blast
    with opt b show False by blast
  qed
  note B = best_first_optimum [OF assms, of tm]
  note W = best_first_optimum [OF assms, of "\<not> tm"]
  have 1: "best tm self < length self" by (rule B(1))
  have 2: "\<forall>j<length self. \<not> is_worse tm (self ! best tm self) (self ! j)"
    using B(2) by (simp add: is_worse_conv)
  have 3: "\<forall>j<length self. (\<forall>i<length self. \<not> is_worse tm (self ! j) (self ! i)) \<longrightarrow> best tm self \<le> j"
    using low [OF B(1) B(3)] by (simp add: is_worse_conv)
  have 4: "worst tm self < length self"
    using W(1) by (simp add: worst_eq_best_flip)
  have 5: "\<forall>j<length self. \<not> is_better tm (self ! worst tm self) (self ! j)"
    using W(2) by (simp add: worst_eq_best_flip is_worse_flip [symmetric] is_worse_conv)
  have 6: "\<forall>j<length self. (\<forall>i<length self. \<not> is_better tm (self ! j) (self ! i)) \<longrightarrow> worst tm self \<le> j"
    using low [OF W(1) W(3)]
    by (simp add: worst_eq_best_flip is_worse_flip [symmetric] is_worse_conv)
  from 1 2 3 4 5 6 show ?thesis by blast
qed

theorem best_worst_correct_witness:
  "objs_pop [5, 1, 9, 1, 9] \<noteq> [] \<and> best False (objs_pop [5, 1, 9, 1, 9]) = 1 \<and>
   worst False (objs_pop [5, 1, 9, 1, 9]) = 2 \<and>
   \<not> is_worse False (objs_pop [5, 1, 9, 1, 9] ! 1) (objs_pop [5, 1, 9, 1, 9] ! 3) \<and>
   \<not> is_better False (objs_pop [5, 1, 9, 1, 9] ! 2) (objs_pop [5, 1, 9, 1, 9] ! 4)"
proof -
  have h: "objs_pop [5, 1, 9, 1, 9] \<noteq> []" by (simp add: objs_pop_def)
  have b: "best False (objs_pop [5, 1, 9, 1, 9]) = 1"
    by (simp add: best_def objs_pop_def is_better_def)
  have w: "worst False (objs_pop [5, 1, 9, 1, 9]) = 2"
    by (simp add: worst_def objs_pop_def is_worse_def)
  have l: "length (objs_pop [5, 1, 9, 1, 9]) = 5" by (simp add: objs_pop_def)
  show ?thesis
    using h best_worst_correct [OF h, of False] unfolding b w l by simp
qed

section \<open>Properties of the tournament selection\<close>

lemma nat_one_plus: "nat (1 + int m) = Suc m"
  by simp

lemma randint_index:
  assumes "2 \<le> length self"
  shows "random_randint 1 (int (length self) - 1) g =
           Inr (int (Suc (shd g mod (length self - 1))), stl g)"
proof -
  have "nat (int (length self) - 1 - 1 + 1) = length self - 1" using assms by simp
  then show ?thesis using assms by (simp add: random_randint_def)
qed

lemma selection_loop_spec:
  assumes "2 \<le> length self"
  shows "\<exists>idx. selection_loop tm self n b g = Inr (idx, sdrop n g) \<and>
           idx \<in> insert b (set (map (\<lambda>r. Suc (r mod (length self - 1))) (stake n g))) \<and>
           \<not> is_better tm (self ! b) (self ! idx) \<and>
           (\<forall>d\<in>set (map (\<lambda>r. Suc (r mod (length self - 1))) (stake n g)).
              \<not> is_better tm (self ! d) (self ! idx))"
proof (induction n arbitrary: b g)
  case 0
  then show ?case by (simp add: is_better_irrefl)
next
  case (Suc n)
  let ?d = "Suc (shd g mod (length self - 1))"
  let ?b = "if is_better tm (self ! ?d) (self ! b) then ?d else b"
  let ?ds = "map (\<lambda>r. Suc (r mod (length self - 1))) (stake n (stl g))"
  from Suc.IH [of ?b "stl g"] obtain idx where
    run: "selection_loop tm self n ?b (stl g) = Inr (idx, sdrop n (stl g))"
    and mem: "idx \<in> insert ?b (set ?ds)"
    and nb: "\<not> is_better tm (self ! ?b) (self ! idx)"
    and all: "\<forall>d\<in>set ?ds. \<not> is_better tm (self ! d) (self ! idx)"
    by blast
  have 1: "selection_loop tm self (Suc n) b g = Inr (idx, sdrop (Suc n) g)"
    using run by (simp add: randint_index [OF assms] nat_one_plus cong: if_cong)
  have 2: "\<not> is_better tm (self ! b) (self ! idx)"
    using nb is_better_trans [of tm "self ! ?d" "self ! b" "self ! idx"]
    by (auto split: if_splits)
  have 3: "\<not> is_better tm (self ! ?d) (self ! idx)"
    using nb not_better_trans [of tm "self ! ?d" "self ! b" "self ! idx"]
    by (auto split: if_splits)
  have 4: "idx \<in> insert b (insert ?d (set ?ds))"
    using mem by (auto split: if_splits)
  show ?case using 1 2 3 4 all by simp
qed

text \<open>
  Claim C3, as the code has it. On a population of at least two members \<^verbatim>\<open>selection\<close>
  makes \<open>max 1 mh_tournament_size\<close> draws, each an index of \<open>[1, size - 1]\<close> computed from
  the next raw number alone (so an index can be drawn again), and returns a drawn index
  that no drawn index beats; it never returns 0. When a drawn index beats every other
  index of \<open>[1, size - 1]\<close>, that index is returned.
\<close>

theorem selection_tournament:
  assumes "2 \<le> length self"
  shows "\<exists>idx. selection tm own_settings self g =
             Inr (idx, sdrop (nat (max 1 (mh_tournament_size own_settings))) g) \<and>
           idx \<in> set (map (\<lambda>r. Suc (r mod (length self - 1)))
                        (stake (nat (max 1 (mh_tournament_size own_settings))) g)) \<and>
           1 \<le> idx \<and> idx < length self \<and>
           (\<forall>d\<in>set (map (\<lambda>r. Suc (r mod (length self - 1)))
                        (stake (nat (max 1 (mh_tournament_size own_settings))) g)).
              \<not> is_better tm (self ! d) (self ! idx) \<and>
              ((\<forall>e<length self. e \<noteq> d \<longrightarrow> e \<noteq> 0 \<longrightarrow> is_better tm (self ! d) (self ! e)) \<longrightarrow> idx = d))"
proof -
  let ?k = "mh_tournament_size own_settings"
  let ?n = "nat (?k - 1)"
  let ?d = "Suc (shd g mod (length self - 1))"
  let ?f = "\<lambda>r. Suc (r mod (length self - 1))"
  have n: "nat (max 1 ?k) = Suc ?n" by simp
  from selection_loop_spec [OF assms, of tm ?n ?d "stl g"] obtain idx where
    run: "selection_loop tm self ?n ?d (stl g) = Inr (idx, sdrop ?n (stl g))"
    and mem: "idx \<in> insert ?d (set (map ?f (stake ?n (stl g))))"
    and nb: "\<not> is_better tm (self ! ?d) (self ! idx)"
    and all: "\<forall>d\<in>set (map ?f (stake ?n (stl g))). \<not> is_better tm (self ! d) (self ! idx)"
    by blast
  have draws: "map ?f (stake (nat (max 1 ?k)) g) = ?d # map ?f (stake ?n (stl g))"
    unfolding n by simp
  have 1: "selection tm own_settings self g = Inr (idx, sdrop (nat (max 1 ?k)) g)"
    unfolding n using run by (simp add: selection_def randint_index [OF assms] nat_one_plus)
  have rng: "\<forall>d\<in>set (map ?f (stake (nat (max 1 ?k)) g)). 1 \<le> d \<and> d < length self"
  proof
    fix d assume "d \<in> set (map ?f (stake (nat (max 1 ?k)) g))"
    then obtain r where d: "d = Suc (r mod (length self - 1))" by auto
    have "r mod (length self - 1) < length self - 1"
      using assms by (intro mod_less_divisor) simp
    with d show "1 \<le> d \<and> d < length self" by simp
  qed
  have 2: "idx \<in> set (map ?f (stake (nat (max 1 ?k)) g))"
    unfolding draws using mem by simp
  have 3: "\<forall>d\<in>set (map ?f (stake (nat (max 1 ?k)) g)). \<not> is_better tm (self ! d) (self ! idx)"
    unfolding draws using nb all by simp
  have 4: "1 \<le> idx \<and> idx < length self" using rng 2 by blast
  have 5: "idx = d" if "d \<in> set (map ?f (stake (nat (max 1 ?k)) g))"
    and "\<forall>e<length self. e \<noteq> d \<longrightarrow> e \<noteq> 0 \<longrightarrow> is_better tm (self ! d) (self ! e)" for d
  proof (rule ccontr)
    assume "idx \<noteq> d"
    with that(2) 4 have "is_better tm (self ! d) (self ! idx)" by simp
    with 3 that(1) show False by blast
  qed
  show ?thesis using 1 2 3 4 5 by blast
qed

lemma selection_loop_numeral:
  "selection_loop tm self (numeral n) b g =
     (case random_randint 1 (int (length self) - 1) g of
        Inl e \<Rightarrow> Inl e
      | Inr (individual, g') \<Rightarrow>
          selection_loop tm self (pred_numeral n)
            (if is_better tm (self ! nat individual) (self ! b)
             then nat individual else b) g')"
  by (simp add: numeral_eq_Suc)

text \<open>
  In the spec's scenario the tournament returns index 1 when index 1 is drawn (raw numbers
  3, 0, 7, 7, ... give the draws 4, 1, 8, 8, ...).
\<close>

theorem selection_tournament_witness:
  "2 \<le> length pop10 \<and>
   selection False settings10 pop10 (3 ## 0 ## sconst 7) = Inr (1, sconst 7) \<and>
   (\<exists>idx. selection False settings10 pop10 (3 ## 0 ## sconst 7) =
            Inr (idx, sdrop (nat (max 1 (mh_tournament_size settings10))) (3 ## 0 ## sconst 7)) \<and>
          1 \<le> idx \<and> idx < length pop10)"
proof -
  have h: "2 \<le> length pop10" by (simp add: pop10_def objs_pop_def)
  have v: "selection False settings10 pop10 (3 ## 0 ## sconst 7) = Inr (1, sconst 7)"
    by (simp add: selection_def settings10_def pop10_def objs_pop_def random_randint_def
         selection_loop_numeral is_better_def)
  from selection_tournament [OF h, of False settings10 "3 ## 0 ## sconst 7"]
  obtain idx where
    "selection False settings10 pop10 (3 ## 0 ## sconst 7) =
       Inr (idx, sdrop (nat (max 1 (mh_tournament_size settings10))) (3 ## 0 ## sconst 7))"
    and "1 \<le> idx" and "idx < length pop10"
    by blast
  then show ?thesis using h v by blast
qed

text \<open>
  The scenario as the claim states it fails: when every raw number is 1, all ten draws are
  index 2 (objective 9), the ten sampled indices are not distinct, and index 2 is returned.
\<close>

theorem selection_scenario_counterexample:
  "selection False settings10 pop10 (sconst 1) = Inr (2, sconst 1)"
  by (simp add: selection_def settings10_def pop10_def objs_pop_def random_randint_def
       selection_loop_numeral is_better_def)

section \<open>Properties of the population initialisation and the statistics\<close>

lemma duplicates_of_nonempty:
  "duplicates_of self s \<noteq> [] \<longleftrightarrow> (\<exists>p\<in>set self. is_equal p s)"
proof -
  have "duplicates_of self s \<noteq> [] \<longleftrightarrow> (\<exists>i<length self. is_equal (self ! i) s)"
    by (auto simp: duplicates_of_eq_filter filter_empty_conv)
  also have "\<dots> \<longleftrightarrow> (\<exists>p\<in>set self. is_equal p s)"
    by (metis in_set_conv_nth)
  finally show ?thesis .
qed

lemma Population_init_first:
  assumes "meths_ch \<noteq> []" and "1 \<le> mh_pop_size own_settings"
    and "func (meths_ch ! 0) sol (par (meths_ch ! 0)) Result g = (sol', res, g')"
  shows "Population_init own_settings meths_ch sol g =
           (if terminate res then Some (Inr ([sol'], g'))
            else Population_loop own_settings meths_ch 1 [sol'] sol' g')"
  using assms unfolding Population_init_def
  by (subst Population_loop.simps) (simp add: duplicates_of_def)

lemma Population_init_empty:
  "mh_pop_size own_settings < 1 \<Longrightarrow> Population_init own_settings meths_ch sol g = Some (Inr ([], g))"
  unfolding Population_init_def by (subst Population_loop.simps) simp

lemma Population_loop_reject:
  assumes "int (length self) < mh_pop_size own_settings" and "meths_ch \<noteq> []"
    and "mh_dupelim own_settings"
    and "func (meths_ch ! (i mod length meths_ch)) sol
           (par (meths_ch ! (i mod length meths_ch))) Result g = (sol', res, g')"
    and "\<exists>p\<in>set self. is_equal p sol'"
  shows "Population_loop own_settings meths_ch i self sol g =
           Population_loop own_settings meths_ch (Suc i) self sol' g'"
  using assms
  by (subst Population_loop.simps) (simp add: duplicates_of_nonempty)

lemma Population_loop_stuck:
  assumes ret: "Population_loop own_settings meths_ch i self sol g = Some y"
  shows "\<not> all_rejected own_settings meths_ch self"
  apply (rule Population_loop.raw_induct
      [where P = "\<lambda>os ms i self sol g y. \<not> all_rejected os ms self", OF _ ret])
  subgoal premises prems for loop os ms i self sol g y
  proof
    assume inv: "all_rejected os ms self"
    let ?m = "ms ! (i mod length ms)"
    obtain sol' res g' where f: "func ?m sol (par ?m) Result g = (sol', res, g')"
      by (cases "func ?m sol (par ?m) Result g") auto
    have "?m \<in> set ms" using inv by (simp add: all_rejected_def)
    with inv have "\<exists>p\<in>set self. is_equal p (fst (func ?m sol (par ?m) Result g))"
      unfolding all_rejected_def by blast
    then have dup: "duplicates_of self sol' \<noteq> []"
      by (simp add: duplicates_of_nonempty f)
    from prems(2) inv f dup have "loop os ms (Suc i) self sol' g' = Some y"
      by (simp add: all_rejected_def)
    from prems(1) [OF this] inv show False by blast
  qed
  done

lemma Population_loop_None:
  assumes "mh_dupelim own_settings" and "meths_ch \<noteq> []"
    and "int (length self) < mh_pop_size own_settings"
    and "\<forall>m\<in>set meths_ch. \<forall>s h. \<exists>p\<in>set self. is_equal p (fst (func m s (par m) Result h))"
  shows "Population_loop own_settings meths_ch i self sol g = None"
proof (cases "Population_loop own_settings meths_ch i self sol g")
  case None
  then show ?thesis .
next
  case (Some y)
  from Population_loop_stuck [OF this] assms show ?thesis
    unfolding all_rejected_def by blast
qed

text \<open>
  Claim C2, as the code has it. With \<^verbatim>\<open>mh_dupelim\<close> set and the population short, a
  candidate equal to a member is rejected: the population stays as it is and the loop goes
  on with the next position of the cycle of construction methods, from the rejected
  candidate. The loop counts no rejections and has no error exit: when every construction
  output equals a member, \<^verbatim>\<open>Population.__init__\<close> never returns.
\<close>

theorem population_init_duplicates_diverge:
  assumes "mh_dupelim own_settings" and "meths_ch \<noteq> []"
    and "int (length self) < mh_pop_size own_settings"
  shows "(func (meths_ch ! (i mod length meths_ch)) sol
            (par (meths_ch ! (i mod length meths_ch))) Result g = (sol', res, g') \<and>
          (\<exists>p\<in>set self. is_equal p sol') \<longrightarrow>
            Population_loop own_settings meths_ch i self sol g =
              Population_loop own_settings meths_ch (Suc i) self sol' g') \<and>
         ((\<forall>m\<in>set meths_ch. \<forall>s h. \<exists>p\<in>set self. is_equal p (fst (func m s (par m) Result h))) \<longrightarrow>
            Population_loop own_settings meths_ch i self sol g = None)"
proof (intro conjI impI)
  assume "func (meths_ch ! (i mod length meths_ch)) sol
            (par (meths_ch ! (i mod length meths_ch))) Result g = (sol', res, g') \<and>
          (\<exists>p\<in>set self. is_equal p sol')"
  then show "Population_loop own_settings meths_ch i self sol g =
              Population_loop own_settings meths_ch (Suc i) self sol' g'"
    using assms by (intro Population_loop_reject [where res = res]) simp_all
next
  assume "\<forall>m\<in>set meths_ch. \<forall>s h. \<exists>p\<in>set self. is_equal p (fst (func m s (par m) Result h))"
  with assms show "Population_loop own_settings meths_ch i self sol g = None"
    by (intro Population_loop_None) simp_all
qed

theorem population_init_duplicates_diverge_witness:
  "mh_dupelim settings_dupelim2 \<and> [same_method, other_method] \<noteq> [] \<and>
   int (length [\<lparr>rep = 0, obj = 3\<rparr> :: nat solution]) < mh_pop_size settings_dupelim2 \<and>
   func ([same_method, other_method] ! (0 mod length [same_method, other_method])) sol0
     (par ([same_method, other_method] ! (0 mod length [same_method, other_method]))) Result (sconst 0) =
     (\<lparr>rep = 0, obj = 3\<rparr>, Result\<lparr>changed := True\<rparr>, sconst 0) \<and>
   (\<exists>p\<in>set [\<lparr>rep = 0, obj = 3\<rparr> :: nat solution]. is_equal p \<lparr>rep = 0, obj = 3\<rparr>) \<and>
   Population_loop settings_dupelim2 [same_method, other_method] 0 [\<lparr>rep = 0, obj = 3\<rparr>] sol0 (sconst 0) =
     Population_loop settings_dupelim2 [same_method, other_method] (Suc 0) [\<lparr>rep = 0, obj = 3\<rparr>]
       \<lparr>rep = 0, obj = 3\<rparr> (sconst 0) \<and>
   Population_loop settings_dupelim2 [same_method, other_method] 0 [\<lparr>rep = 0, obj = 3\<rparr>] sol0 (sconst 0) =
     Some (Inr ([\<lparr>rep = 0, obj = 3\<rparr>, \<lparr>rep = 0, obj = 4\<rparr>], sconst 0)) \<and>
   Population_loop settings_dupelim2 [same_method, same_method] 3 [\<lparr>rep = 0, obj = 3\<rparr>] sol0 (sconst 0) = None"
proof -
  let ?s3 = "\<lparr>rep = 0, obj = 3\<rparr> :: nat solution"
  have 1: "mh_dupelim settings_dupelim2" by (simp add: settings_dupelim2_def)
  have 2: "[same_method, other_method] \<noteq> []" by simp
  have ne: "[same_method, same_method] \<noteq> []" by simp
  have 3: "int (length [?s3]) < mh_pop_size settings_dupelim2"
    by (simp add: settings_dupelim2_def)
  have 4: "func ([same_method, other_method] ! (0 mod length [same_method, other_method])) sol0
     (par ([same_method, other_method] ! (0 mod length [same_method, other_method]))) Result (sconst 0) =
     (?s3, Result\<lparr>changed := True\<rparr>, sconst 0)"
    by (simp add: same_method_def)
  have 5: "\<exists>p\<in>set [?s3]. is_equal p ?s3" by (simp add: is_equal_def)
  have 6: "\<forall>m\<in>set [same_method, same_method]. \<forall>s h.
             \<exists>p\<in>set [?s3]. is_equal p (fst (func m s (par m) Result h))"
    by (simp add: same_method_def is_equal_def)
  from population_init_duplicates_diverge [OF 1 2 3, of 0 sol0 "sconst 0" ?s3
      "Result\<lparr>changed := True\<rparr>" "sconst 0"] 4 5
  have step: "Population_loop settings_dupelim2 [same_method, other_method] 0 [?s3] sol0 (sconst 0) =
     Population_loop settings_dupelim2 [same_method, other_method] (Suc 0) [?s3] ?s3 (sconst 0)"
    by blast
  have next_tried: "Population_loop settings_dupelim2 [same_method, other_method] (Suc 0) [?s3] ?s3 (sconst 0) =
     Some (Inr ([?s3, \<lparr>rep = 0, obj = 4\<rparr>], sconst 0))"
    by (simp add: Population_loop.simps settings_dupelim2_def other_method_def Result_def
        duplicates_of_def is_equal_def)
  from population_init_duplicates_diverge [OF 1 ne 3, of 3 sol0 "sconst 0"] 6
  have stuck: "Population_loop settings_dupelim2 [same_method, same_method] 3 [?s3] sol0 (sconst 0) = None"
    by blast
  from 1 2 3 4 5 step next_tried stuck show ?thesis by simp
qed

text \<open>
  The spec's scenario: the construction method always builds the same solution,
  \<^verbatim>\<open>mh_pop_size = 5\<close>, \<^verbatim>\<open>mh_dupelim\<close> set. The constructor returns neither a population nor
  an error.
\<close>

theorem population_init_same_counterexample:
  "Population_init settings5 [same_method] sol0 (sconst 0) = None"
proof -
  have f: "func (([same_method]) ! 0) sol0 (par ([same_method] ! 0)) Result (sconst 0) =
        (\<lparr>rep = 0, obj = 3\<rparr>, Result\<lparr>changed := True\<rparr>, sconst 0)"
    by (simp add: same_method_def)
  have "Population_init settings5 [same_method] sol0 (sconst 0) =
          Population_loop settings5 [same_method] 1 [\<lparr>rep = 0, obj = 3\<rparr>] \<lparr>rep = 0, obj = 3\<rparr> (sconst 0)"
    by (subst Population_init_first [OF _ _ f]) (simp_all add: settings5_def Result_def)
  also have "\<dots> = None"
    by (rule Population_loop_None) (simp_all add: settings5_def same_method_def is_equal_def)
  finally show ?thesis .
qed

text \<open>
  Claim C10. \<^verbatim>\<open>obj_std\<close> raises on every population of fewer than two members and
  \<^verbatim>\<open>obj_avg\<close> raises \<^verbatim>\<open>ValueError\<close> on the empty one; a population of one member is what
  \<^verbatim>\<open>Population.__init__\<close> returns when the first construction signals \<^verbatim>\<open>terminate\<close>.
\<close>

theorem short_population_statistics_raise:
  "(length self < 2 \<longrightarrow> obj_std self = Inl StatisticsError) \<and>
   obj_avg ([] :: 'a solution list) = Inl ValueError \<and>
   (meths_ch \<noteq> [] \<and> 1 \<le> mh_pop_size own_settings \<and>
      terminate (fst (snd (func (meths_ch ! 0) sol (par (meths_ch ! 0)) Result g))) \<longrightarrow>
      (\<exists>s g'. Population_init own_settings meths_ch (sol :: 'a solution) g = Some (Inr ([s], g')) \<and>
         obj_std [s] = Inl StatisticsError))"
proof (intro conjI impI)
  show "obj_std self = Inl StatisticsError" if "length self < 2"
    using that by (simp add: obj_std_def stdev_def)
  show "obj_avg ([] :: 'a solution list) = Inl ValueError"
    by (simp add: obj_avg_def)
  assume a: "meths_ch \<noteq> [] \<and> 1 \<le> mh_pop_size own_settings \<and>
      terminate (fst (snd (func (meths_ch ! 0) sol (par (meths_ch ! 0)) Result g)))"
  obtain s res g' where f: "func (meths_ch ! 0) sol (par (meths_ch ! 0)) Result g = (s, res, g')"
    by (cases "func (meths_ch ! 0) sol (par (meths_ch ! 0)) Result g") auto
  with a have "Population_init own_settings meths_ch sol g = Some (Inr ([s], g'))"
    by (simp add: Population_init_first [OF _ _ f])
  moreover have "obj_std [s] = Inl StatisticsError"
    by (simp add: obj_std_def stdev_def)
  ultimately show "\<exists>s g'. Population_init own_settings meths_ch sol g = Some (Inr ([s], g')) \<and>
         obj_std [s] = Inl StatisticsError"
    by blast
qed

theorem short_population_statistics_raise_witness:
  "length [sol0] < 2 \<and> obj_std [sol0] = Inl StatisticsError \<and>
   [stop_method] \<noteq> [] \<and> 1 \<le> mh_pop_size settings10 \<and>
   terminate (fst (snd (func ([stop_method] ! 0) sol0 (par ([stop_method] ! 0)) Result (sconst 0)))) \<and>
   (\<exists>s g'. Population_init settings10 [stop_method] sol0 (sconst 0) = Some (Inr ([s], g')) \<and>
         obj_std [s] = Inl StatisticsError)"
proof -
  have 1: "length [sol0] < 2" by simp
  have 2: "[stop_method] \<noteq> [] \<and> 1 \<le> mh_pop_size settings10 \<and>
     terminate (fst (snd (func ([stop_method] ! 0) sol0 (par ([stop_method] ! 0)) Result (sconst 0))))"
    by (simp add: settings10_def stop_method_def)
  from short_population_statistics_raise
    [of "[sol0]" "[stop_method]" settings10 sol0 "sconst 0"] 1 2
  show ?thesis by blast
qed

section \<open>Seeding and the settings file\<close>

lemma seed_random_generators_zero:
  assumes "seed settings = 0"
  shows "seed_random_generators settings entropy =
           Inr (settings\<lparr>seed := int (entropy mod 2147483647)\<rparr>,
                \<lparr>np_seed = int (entropy mod 2147483647), py_seed = int (entropy mod 2147483647)\<rparr>)"
proof -
  have "int (entropy mod 2147483647) < 2147483647" by simp
  also have "(2147483647 :: int) < 2 ^ 32" by simp
  finally have "int (entropy mod 2147483647) < 2 ^ 32" .
  then show ?thesis using assms by (simp add: seed_random_generators_def)
qed

lemma seed_random_generators_nonzero:
  assumes "0 < seed settings" and "seed settings < 2 ^ 32"
  shows "seed_random_generators settings entropy =
           Inr (settings, \<lparr>np_seed = seed settings, py_seed = seed settings\<rparr>)"
  using assms by (simp add: seed_random_generators_def)

text \<open>
  Claim C4. With a configured seed of 0 a 31-bit sample is written back and given to both
  generators (lemma \<open>seed_random_generators_zero\<close>), but the sample is drawn from
  \<open>[0, 2147483647)\<close> and can be 0 itself: then the stored seed is still 0 afterwards and
  both generators are seeded with 0.
\<close>

theorem seed_zero_sample_zero:
  "seed_random_generators settings_unseeded 0 =
     Inr (settings_unseeded, \<lparr>np_seed = 0, py_seed = 0\<rparr>) \<and>
   seed settings_unseeded = 0"
  by (simp add: seed_random_generators_def settings_unseeded_def)

lemma load_save:
  assumes "\<forall>s. loads (dumps s) = Some s"
  shows "load_settings loads (save_settings dumps fs filename settings) filename entropy =
           seed_random_generators settings entropy"
  using assms by (simp add: load_settings_def save_settings_def)

text \<open>
  Claim C5, as the code has it. When unpickling inverts pickling, saving a settings
  snapshot whose seed lies in \<open>1 .. 2^32 - 1\<close> and loading it restores every option, the
  seed included, and seeds both generators with it. For a snapshot whose seed is 0, every
  option but the seed is restored: \<^verbatim>\<open>load_settings\<close> reseeds, and the seed becomes the
  fresh sample.
\<close>

theorem save_load_roundtrip:
  assumes "\<forall>s. loads (dumps s) = Some s"
  shows "(0 < seed settings \<and> seed settings < 2 ^ 32 \<longrightarrow>
            load_settings loads (save_settings dumps fs filename settings) filename entropy =
              Inr (settings, \<lparr>np_seed = seed settings, py_seed = seed settings\<rparr>)) \<and>
         (seed settings = 0 \<longrightarrow>
            load_settings loads (save_settings dumps fs filename settings) filename entropy =
              Inr (settings\<lparr>seed := int (entropy mod 2147483647)\<rparr>,
                   \<lparr>np_seed = int (entropy mod 2147483647),
                    py_seed = int (entropy mod 2147483647)\<rparr>))"
  using seed_random_generators_zero [of settings entropy]
    seed_random_generators_nonzero [of settings entropy]
  by (simp add: load_save [where loads = loads and dumps = dumps, OF assms])

theorem save_load_roundtrip_witness:
  "(\<forall>s :: settings. Some (id s) = Some s) \<and> 0 < seed settings10 \<and> seed settings10 < 2 ^ 32 \<and>
   load_settings Some (save_settings id Map.empty ''settings.bin'' settings10) ''settings.bin'' 7 =
     Inr (settings10, \<lparr>np_seed = 1, py_seed = 1\<rparr>)"
proof -
  have c: "\<forall>s :: settings. Some (id s) = Some s" by simp
  have r: "0 < seed settings10 \<and> seed settings10 < 2 ^ 32" by (simp add: settings10_def)
  have s: "seed settings10 = 1" by (simp add: settings10_def)
  from save_load_roundtrip [where loads = Some and dumps = id, OF c,
      of settings10 Map.empty "''settings.bin''" 7] r s
  show ?thesis using c by simp
qed

text \<open>
  A snapshot with seed 0 does not come back as it was saved: here the loaded seed is 7.
\<close>

theorem save_load_seed_counterexample:
  "load_settings Some (save_settings id Map.empty ''settings.bin'' settings_unseeded) ''settings.bin'' 7 =
     Inr (settings_unseeded\<lparr>seed := 7\<rparr>, \<lparr>np_seed = 7, py_seed = 7\<rparr>) \<and>
   seed (settings_unseeded\<lparr>seed := 7\<rparr>) \<noteq> seed settings_unseeded"
  by (simp add: load_settings_def save_settings_def seed_random_generators_def settings_unseeded_def)

section \<open>The steady-state genetic algorithm\<close>

lemma example_init: "SSGA_init False settings2 sol0 [same_method] keep_cx worsen_method (Some keep_method) (sconst 0) =
     Some (Inr (state0, sconst 0))"
  by (simp add: SSGA_init_def Population_init_def Population_loop.simps settings2_def
      same_method_def Result_def duplicates_of_def Scheduler_init_def members_def best_def
      is_better_def state0_def sol0_def)

lemma example_new_solution:
  "new_solution (selection False settings2) settings2 state0 (sconst 0) =
     Inr ([worsen_method], 3, state0\<lparr>heap := heap state0 @ [\<lparr>rep = 0, obj = 3\<rparr>]\<rparr>, sconst 0)"
  by (simp add: new_solution_def selection_def settings2_def random_randint_def
      selection_loop_numeral is_better_def state0_def members_def copy_def random_random_def)

lemma example_round: "run_step (selection False settings2) (perform_methods False) False settings2 state0 (sconst 0) =
     Inr (Continue state1 (sconst 0))"
  by (simp add: run_step_def example_new_solution)
     (simp add: state0_def state1_def worsen_method_def Result_def is_better_def is_worse_def
       worst_def members_def copy_from_def sol0_def)

lemma SSGA_init_incumbent_member:
  assumes "SSGA_init tm own_settings sol meths_ch cx mu li g = Some (Inr (self, g'))"
  shows "incumbent self = population self ! best tm (members self) \<and>
         incumbent self \<in> set (population self)"
proof -
  from assms obtain ms where
    b: "best tm (members (Scheduler_init (sol # ms) 0 [1..<Suc (length ms)] cx mu li))
          < length (population (Scheduler_init (sol # ms) 0 [1..<Suc (length ms)] cx mu li))"
    and self: "self = (Scheduler_init (sol # ms) 0 [1..<Suc (length ms)] cx mu li)
          \<lparr>incumbent := population (Scheduler_init (sol # ms) 0 [1..<Suc (length ms)] cx mu li) !
             best tm (members (Scheduler_init (sol # ms) 0 [1..<Suc (length ms)] cx mu li))\<rparr>"
    by (auto simp: SSGA_init_def Let_def split: option.splits sum.splits if_splits prod.splits)
  have m: "members self = members (Scheduler_init (sol # ms) 0 [1..<Suc (length ms)] cx mu li)"
    by (simp add: self members_def)
  have p: "population self = population (Scheduler_init (sol # ms) 0 [1..<Suc (length ms)] cx mu li)"
    by (simp add: self)
  have i: "incumbent self = population self ! best tm (members self)"
    unfolding m p by (simp add: self)
  moreover have "population self ! best tm (members self) \<in> set (population self)"
    unfolding m p using b by (rule nth_mem)
  ultimately show ?thesis by simp
qed

text \<open>
  Claim C1. The claim wants the incumbent to be an object of its own, overwritten by
  \<^verbatim>\<open>copy_from\<close>. The code binds references instead: after \<^verbatim>\<open>__init__\<close> the incumbent is
  the population's own object at index \<^verbatim>\<open>best()\<close> (lemma \<open>SSGA_init_incumbent_member\<close>).
  Evaluated on a population of two equal members (objective 3, minimisation): the
  incumbent is the object in slot 0; in the next round the child has objective 9, the
  worst slot is slot 0, and \<^verbatim>\<open>population[worst].copy_from(p1)\<close> overwrites the incumbent,
  whose objective goes from 3 to 9.
\<close>

theorem incumbent_aliases_population_slot:
  "SSGA_init False settings2 sol0 [same_method] keep_cx worsen_method (Some keep_method) (sconst 0) =
     Some (Inr (state0, sconst 0)) \<and>
   incumbent state0 = population state0 ! 0 \<and>
   obj (heap state0 ! incumbent state0) = 3 \<and>
   run_step (selection False settings2) (perform_methods False) False settings2 state0 (sconst 0) =
     Inr (Continue state1 (sconst 0)) \<and>
   incumbent state1 = population state1 ! 0 \<and>
   obj (heap state1 ! incumbent state1) = 9"
  by (simp add: example_init example_round) (simp add: state0_def state1_def)

lemma Population_loop_agree_Some:
  assumes ret: "Population_loop a ms i self sol g = Some y"
  shows "mh_pop_size a = mh_pop_size b \<longrightarrow> mh_dupelim a = mh_dupelim b \<longrightarrow>
           Population_loop b ms i self sol g = Some y"
  apply (rule Population_loop.raw_induct
      [where P = "\<lambda>os ms i self sol g y. mh_pop_size os = mh_pop_size b \<longrightarrow>
          mh_dupelim os = mh_dupelim b \<longrightarrow> Population_loop b ms i self sol g = Some y", OF _ ret])
  subgoal premises prems for loop os ms i self sol g y
    using prems
    by (subst Population_loop.simps) (auto split: if_splits prod.splits simp: Let_def)
  done

lemma Population_loop_agree:
  assumes "mh_pop_size a = mh_pop_size b" and "mh_dupelim a = mh_dupelim b"
  shows "Population_loop a ms i self sol g = Population_loop b ms i self sol g"
proof (cases "Population_loop a ms i self sol g")
  case (Some y)
  with Population_loop_agree_Some [OF Some, of b] assms show ?thesis by simp
next
  case None
  show ?thesis
  proof (cases "Population_loop b ms i self sol g")
    case (Some y)
    with Population_loop_agree_Some [OF Some, of a] assms None show ?thesis by simp
  next
    case None': None
    with None show ?thesis by simp
  qed
qed

lemma SSGA_init_empty:
  assumes "mh_pop_size own_settings < 1"
  shows "SSGA_init tm own_settings sol meths_ch cx mu li g = Some (Inl IndexError)"
  using assms
  by (simp add: SSGA_init_def Population_init_empty Scheduler_init_def members_def best_def)

text \<open>
  Claim C6, as the code has it. Constructing the algorithm (\<^verbatim>\<open>Population.__init__\<close>, then
  \<^verbatim>\<open>SteadyStateGeneticAlgorithm.__init__\<close>) checks the range of none of \<^verbatim>\<open>mh_pop_size\<close>,
  \<^verbatim>\<open>mh_tournament_size\<close>, \<^verbatim>\<open>mh_ssga_cross_prob\<close> and \<^verbatim>\<open>mh_ssga_loc_prob\<close>: its outcome is
  the same whatever the values of the last three are, and with \<^verbatim>\<open>mh_pop_size < 1\<close> the
  population stays empty and the construction ends in the \<^verbatim>\<open>IndexError\<close> of the incumbent
  lookup.
\<close>

theorem ssga_init_no_validation:
  "SSGA_init tm (own_settings\<lparr>mh_tournament_size := k, mh_ssga_cross_prob := c,
       mh_ssga_loc_prob := l\<rparr>) sol meths_ch cx mu li g =
     SSGA_init tm own_settings sol meths_ch cx mu li g \<and>
   (mh_pop_size own_settings < 1 \<longrightarrow>
      SSGA_init tm own_settings sol meths_ch cx mu li g = Some (Inl IndexError))"
proof
  have "Population_init (own_settings\<lparr>mh_tournament_size := k, mh_ssga_cross_prob := c,
       mh_ssga_loc_prob := l\<rparr>) meths_ch sol g = Population_init own_settings meths_ch sol g"
    unfolding Population_init_def by (rule Population_loop_agree) simp_all
  then show "SSGA_init tm (own_settings\<lparr>mh_tournament_size := k, mh_ssga_cross_prob := c,
       mh_ssga_loc_prob := l\<rparr>) sol meths_ch cx mu li g =
     SSGA_init tm own_settings sol meths_ch cx mu li g"
    by (simp add: SSGA_init_def)
  show "mh_pop_size own_settings < 1 \<longrightarrow>
      SSGA_init tm own_settings sol meths_ch cx mu li g = Some (Inl IndexError)"
    by (simp add: SSGA_init_empty)
qed

theorem ssga_init_no_validation_witness:
  "mh_pop_size (settings2\<lparr>mh_pop_size := 0\<rparr>) < 1 \<and>
   SSGA_init False (settings2\<lparr>mh_pop_size := 0\<rparr>) sol0 [same_method] keep_cx worsen_method (Some keep_method)
     (sconst 0) = Some (Inl IndexError) \<and>
   SSGA_init False (settings2\<lparr>mh_tournament_size := -3, mh_ssga_cross_prob := 5,
       mh_ssga_loc_prob := -1\<rparr>) sol0 [same_method] keep_cx worsen_method (Some keep_method) (sconst 0) =
     SSGA_init False settings2 sol0 [same_method] keep_cx worsen_method (Some keep_method) (sconst 0)"
proof -
  have h: "mh_pop_size (settings2\<lparr>mh_pop_size := 0\<rparr>) < 1" by simp
  from ssga_init_no_validation [where tm = False and own_settings = "settings2\<lparr>mh_pop_size := 0\<rparr>"
      and sol = sol0 and meths_ch = "[same_method]" and cx = keep_cx and mu = worsen_method
      and li = "Some keep_method" and g = "sconst 0"] h
  have 1: "SSGA_init False (settings2\<lparr>mh_pop_size := 0\<rparr>) sol0 [same_method] keep_cx
      worsen_method (Some keep_method) (sconst 0) = Some (Inl IndexError)"
    by blast
  from ssga_init_no_validation [where tm = False and own_settings = settings2
      and k = "-3" and c = 5 and l = "-1"
      and sol = sol0 and meths_ch = "[same_method]" and cx = keep_cx and mu = worsen_method
      and li = "Some keep_method" and g = "sconst 0"]
  have 2: "SSGA_init False (settings2\<lparr>mh_tournament_size := -3, mh_ssga_cross_prob := 5,
       mh_ssga_loc_prob := -1\<rparr>) sol0 [same_method] keep_cx worsen_method (Some keep_method) (sconst 0) =
     SSGA_init False settings2 sol0 [same_method] keep_cx worsen_method (Some keep_method) (sconst 0)"
    by blast
  from h 1 2 show ?thesis by blast
qed

text \<open>
  With \<^verbatim>\<open>mh_ssga_cross_prob = 5\<close> the construction succeeds, so \<^verbatim>\<open>run\<close> can be entered.
\<close>

theorem out_of_range_option_counterexample:
  "SSGA_init False settings_bad sol0 [same_method] keep_cx worsen_method (Some keep_method) (sconst 0) =
     Some (Inr (state0, sconst 0)) \<and>
   \<not> (0 \<le> mh_ssga_cross_prob settings_bad \<and> mh_ssga_cross_prob settings_bad \<le> 1)"
  by (simp add: SSGA_init_def Population_init_def Population_loop.simps settings_bad_def
      same_method_def Result_def duplicates_of_def Scheduler_init_def members_def best_def
      is_better_def state0_def sol0_def)








end
